theory Spec2Isabelle
  imports Main
begin

section \<open>JavaScript values and string operations used by the sources\<close>

text \<open>
  A string is the list of its UTF-16 code units, and a character of the model is a code
  unit below 256, so that \<open>CHR 0xA0\<close> is the no-break space U+00A0. Strings with code
  units from 256 on are not represented.
\<close>

datatype error = Error string | TypeError | SyntaxError | ExecError "string option"

text \<open>\<open>s.startsWith(p)\<close>\<close>

definition startsWith :: "string \<Rightarrow> string \<Rightarrow> bool" where
  "startsWith s p = (take (length p) s = p)"

text \<open>\<open>s.includes(p)\<close>: \<open>p\<close> occurs somewhere in \<open>s\<close>.\<close>

fun js_includes :: "string \<Rightarrow> string \<Rightarrow> bool" where
  "js_includes [] p = (p = [])"
| "js_includes (c # cs) p = (if startsWith (c # cs) p then True else js_includes cs p)"

text \<open>
  \<open>s.split(sep)\<close> for a string separator: the pieces between the non-overlapping
  occurrences of \<open>sep\<close>, found from the left. The empty separator splits into
  single characters.
\<close>

fun js_split :: "string \<Rightarrow> string \<Rightarrow> string list" where
  "js_split [] s = map (\<lambda>c. [c]) s"
| "js_split (p # ps) [] = [[]]"
| "js_split (p # ps) (c # cs) =
     (if startsWith (c # cs) (p # ps) then [] # js_split (p # ps) (drop (length ps) cs)
      else (case js_split (p # ps) cs of
              [] \<Rightarrow> [[c]]
            | piece # pieces \<Rightarrow> (c # piece) # pieces))"

text \<open>The white space and line terminators that \<open>trim\<close> strips, among the code units
  below 256: tab, line feed, vertical tab, form feed, carriage return, space and the
  no-break space.\<close>

definition is_space :: "char \<Rightarrow> bool" where
  "is_space c =
     (c \<in> set [CHR '' '', CHR 0x09, CHR 0x0A, CHR 0x0B, CHR 0x0C, CHR 0x0D, CHR 0xA0])"

text \<open>\<open>s.trim()\<close>\<close>

definition trim :: "string \<Rightarrow> string" where
  "trim s = rev (dropWhile is_space (rev (dropWhile is_space s)))"

text \<open>The upper-case letters below 256 and their lower-case forms: the ASCII letters and
  the letters U+00C0 to U+00DE without the multiplication sign U+00D7.\<close>

definition upper_chars :: string where
  "upper_chars =
     ''ABCDEFGHIJKLMNOPQRSTUVWXYZ'' @
       [CHR 0xC0, CHR 0xC1, CHR 0xC2, CHR 0xC3, CHR 0xC4, CHR 0xC5, CHR 0xC6, CHR 0xC7,
        CHR 0xC8, CHR 0xC9, CHR 0xCA, CHR 0xCB, CHR 0xCC, CHR 0xCD, CHR 0xCE, CHR 0xCF,
        CHR 0xD0, CHR 0xD1, CHR 0xD2, CHR 0xD3, CHR 0xD4, CHR 0xD5, CHR 0xD6, CHR 0xD8,
        CHR 0xD9, CHR 0xDA, CHR 0xDB, CHR 0xDC, CHR 0xDD, CHR 0xDE]"

definition lower_chars :: string where
  "lower_chars =
     ''abcdefghijklmnopqrstuvwxyz'' @
       [CHR 0xE0, CHR 0xE1, CHR 0xE2, CHR 0xE3, CHR 0xE4, CHR 0xE5, CHR 0xE6, CHR 0xE7,
        CHR 0xE8, CHR 0xE9, CHR 0xEA, CHR 0xEB, CHR 0xEC, CHR 0xED, CHR 0xEE, CHR 0xEF,
        CHR 0xF0, CHR 0xF1, CHR 0xF2, CHR 0xF3, CHR 0xF4, CHR 0xF5, CHR 0xF6, CHR 0xF8,
        CHR 0xF9, CHR 0xFA, CHR 0xFB, CHR 0xFC, CHR 0xFD, CHR 0xFE]"

definition lower_char :: "char \<Rightarrow> char" where
  "lower_char c =
     (case map_of (zip upper_chars lower_chars) c of
        Some l \<Rightarrow> l
      | None \<Rightarrow> c)"

text \<open>\<open>s.toLowerCase()\<close>\<close>

definition toLowerCase :: "string \<Rightarrow> string" where
  "toLowerCase s = map lower_char s"

text \<open>
  A property read \<open>obj[key]\<close> on an ordinary object finds the object's own member, or
  else a member inherited from \<open>Object.prototype\<close>, or else \<open>undefined\<close>.
  Every inherited member is a function or an object, hence truthy and not a string.
\<close>

definition object_prototype_members :: "string list" where
  "object_prototype_members =
     [''constructor'', ''__proto__'', ''hasOwnProperty'', ''isPrototypeOf'',
      ''propertyIsEnumerable'', ''toLocaleString'', ''toString'', ''valueOf'',
      ''__defineGetter__'', ''__defineSetter__'', ''__lookupGetter__'', ''__lookupSetter__'']"

datatype 'a js_lookup = Own 'a | Inherited string | Undefined

definition obj_get :: "(string \<times> 'a) list \<Rightarrow> string \<Rightarrow> 'a js_lookup" where
  "obj_get members key =
     (case map_of members key of
        Some v \<Rightarrow> Own v
      | None \<Rightarrow> if key \<in> set object_prototype_members then Inherited key else Undefined)"

section \<open>The semver package (external), strict mode\<close>

text \<open>
  \<open>semver.parse\<close> accepts, after trimming, an optional \<open>v\<close>, three numeric
  identifiers without leading zeros separated by dots, an optional prerelease
  (\<open>-\<close> and dot-separated identifiers over letters, digits and hyphens, the all-digit
  ones without leading zeros) and an optional build (\<open>+\<close> and dot-separated nonempty
  identifiers over letters, digits and hyphens). The string has at most 256 characters
  and each number is at most \<open>2^53 - 1\<close>. Anything else is \<open>null\<close>. Of the parsed
  object only \<open>major\<close>, \<open>minor\<close> and \<open>patch\<close> are read by this program.
\<close>

record semver =
  major :: int
  minor :: int
  patch :: int

definition is_digit :: "char \<Rightarrow> bool" where
  "is_digit c = (c \<in> set ''0123456789'')"

definition is_ident_char :: "char \<Rightarrow> bool" where
  "is_ident_char c =
     (c \<in> set ''0123456789abcdefghijklmnopqrstuvwxyzABCDEFGHIJKLMNOPQRSTUVWXYZ-'')"

definition digit_val :: "char \<Rightarrow> int" where
  "digit_val c =
     (case map_of (zip ''0123456789'' [0, 1, 2, 3, 4, 5, 6, 7, 8, 9]) c of
        Some d \<Rightarrow> d
      | None \<Rightarrow> 0)"

definition int_of_digits :: "string \<Rightarrow> int" where
  "int_of_digits s = foldl (\<lambda>n c. 10 * n + digit_val c) 0 s"

definition numeric_identifier :: "string \<Rightarrow> bool" where
  "numeric_identifier s =
     (s \<noteq> [] \<and> list_all is_digit s \<and> (if s = ''0'' then True else hd s \<noteq> CHR ''0''))"

definition prerelease_identifier :: "string \<Rightarrow> bool" where
  "prerelease_identifier s =
     (s \<noteq> [] \<and> list_all is_ident_char s \<and>
      (if list_all is_digit s then numeric_identifier s else True))"

definition build_identifier :: "string \<Rightarrow> bool" where
  "build_identifier s = (s \<noteq> [] \<and> list_all is_ident_char s)"

definition MAX_SAFE_INTEGER :: int where
  "MAX_SAFE_INTEGER = 9007199254740991"

definition main_version :: "string \<Rightarrow> semver option" where
  "main_version s =
     (case js_split ''.'' s of
        [a, b, c] \<Rightarrow>
          if numeric_identifier a \<and> numeric_identifier b \<and> numeric_identifier c \<and>
             int_of_digits a \<le> MAX_SAFE_INTEGER \<and> int_of_digits b \<le> MAX_SAFE_INTEGER \<and>
             int_of_digits c \<le> MAX_SAFE_INTEGER
          then Some \<lparr>major = int_of_digits a, minor = int_of_digits b, patch = int_of_digits c\<rparr>
          else None
      | _ \<Rightarrow> None)"

definition suffix_ok :: "string \<Rightarrow> bool" where
  "suffix_ok s =
     (case s of
        [] \<Rightarrow> True
      | c # rest \<Rightarrow>
          if c = CHR ''+'' then list_all build_identifier (js_split ''.'' rest)
          else
            (let pre = takeWhile (\<lambda>x. x \<noteq> CHR ''+'') rest;
                 bld = dropWhile (\<lambda>x. x \<noteq> CHR ''+'') rest
             in list_all prerelease_identifier (js_split ''.'' pre) \<and>
                (case bld of
                   [] \<Rightarrow> True
                 | _ # b \<Rightarrow> list_all build_identifier (js_split ''.'' b))))"

definition semver_parse :: "string \<Rightarrow> semver option" where
  "semver_parse version =
     (if length version > 256 then None
      else
        (let t = trim version;
             u = (case t of c # cs \<Rightarrow> if c = CHR ''v'' then cs else t | [] \<Rightarrow> t);
             m = takeWhile (\<lambda>x. x \<noteq> CHR ''-'' \<and> x \<noteq> CHR ''+'') u;
             r = dropWhile (\<lambda>x. x \<noteq> CHR ''-'' \<and> x \<noteq> CHR ''+'') u
         in if suffix_ok r then main_version m else None))"

text \<open>\<open>semver.valid(v)\<close> is the normalised version string or \<open>null\<close>; the program
  only tests its truthiness, and a normalised version is never empty.\<close>

definition semver_valid :: "string \<Rightarrow> bool" where
  "semver_valid version = (semver_parse version \<noteq> None)"

section \<open>src/analyzers/outdated.js\<close>

text \<open>
  A dependency as the scanners build it: \<open>name\<close>, \<open>version\<close> (the declared
  constraint), \<open>installed\<close> (\<open>None\<close> for \<open>null\<close> or a missing member) and
  \<open>type\<close>, which is \<open>'production'\<close> or \<open>'development'\<close>. The members \<open>name\<close> and
  \<open>type\<close> occur in several objects of the program, so each record gives them its own
  prefix (\<open>dep_\<close> for a dependency, \<open>uc_\<close> for an update candidate).
\<close>

datatype dep_kind = Production | Development

record dependency =
  dep_name :: string
  dep_version :: string
  dep_installed :: "string option"
  dep_type :: dep_kind

text \<open>The strings \<open>'major'\<close>, \<open>'minor'\<close>, \<open>'patch'\<close>, \<open>'none'\<close>, \<open>'unknown'\<close>.\<close>

datatype update_type = UMajor | UMinor | UPatch | UNone | UUnknown

record update_candidate =
  uc_name :: string
  current :: string
  wanted :: string
  latest :: string
  uc_type :: dep_kind
  updateType :: update_type
  safe :: bool
  breaking :: bool

text \<open>\<open>a || b\<close> on values that are a string, \<open>null\<close> or \<open>undefined\<close>: the empty
  string is falsy.\<close>

definition js_or :: "string option \<Rightarrow> string option \<Rightarrow> string option" where
  "js_or a b = (case a of Some (c # cs) \<Rightarrow> a | _ \<Rightarrow> b)"

definition parseVersion :: "string \<Rightarrow> string option" where
  "parseVersion versionString =
     (if versionString = [] then None
      else
        (let cleanVersion = dropWhile (\<lambda>c. c \<in> set ''^~>=<'') versionString
         in if semver_valid cleanVersion then Some cleanVersion else None))"

text \<open>
  \<open>getUpdateType\<close>: the two validity tests of \<open>||\<close> run in order; a \<open>null\<close> from
  \<open>semver.parse\<close> would raise a TypeError at the first member read, which the
  \<open>catch\<close> turns into \<open>'unknown'\<close>.
\<close>

definition getUpdateType :: "string \<Rightarrow> string \<Rightarrow> update_type" where
  "getUpdateType cur lat =
     (if \<not> semver_valid cur then UUnknown
      else if \<not> semver_valid lat then UUnknown
      else
        (case (semver_parse cur, semver_parse lat) of
           (Some currentParsed, Some latestParsed) \<Rightarrow>
             if major latestParsed > major currentParsed then UMajor
             else if minor latestParsed > minor currentParsed then UMinor
             else if patch latestParsed > patch currentParsed then UPatch
             else UNone
         | _ \<Rightarrow> UUnknown))"

text \<open>
  The body of the \<open>try\<close> in \<open>check\<close> for one dependency. \<open>getLatestVersion\<close> is the
  scanner's lookup by package name: it throws (\<open>Inl\<close>) or returns the registry's version
  member, a string or \<open>undefined\<close>. The result is the candidate pushed, if any.
\<close>

definition check_dep ::
  "(string \<Rightarrow> error + string option) \<Rightarrow> 'a dependency_scheme \<Rightarrow> error + update_candidate option"
where
  "check_dep getLatestVersion dep =
     (case getLatestVersion (dep_name dep) of
        Inl e \<Rightarrow> Inl e
      | Inr latestVersion \<Rightarrow>
          (case (js_or (dep_installed dep) (parseVersion (dep_version dep)), latestVersion) of
             (Some currentVersion, Some latestVersion) \<Rightarrow>
               if currentVersion \<noteq> [] \<and> latestVersion \<noteq> [] \<and> currentVersion \<noteq> latestVersion
               then
                 (let updateType = getUpdateType currentVersion latestVersion;
                      isSafe = (updateType \<noteq> UMajor)
                  in Inr (Some \<lparr>uc_name = dep_name dep, current = currentVersion,
                                 wanted = dep_version dep, latest = latestVersion,
                                 uc_type = dep_type dep, updateType = updateType,
                                 safe = isSafe, breaking = (updateType = UMajor)\<rparr>))
               else Inr None
           | _ \<Rightarrow> Inr None))"

text \<open>The loop of \<open>check\<close>: an exception is caught (and at most logged), and the loop goes
  on with the array \<open>outdated\<close> as it is. The options only drive the spinner and the log.\<close>

fun check_loop ::
  "(string \<Rightarrow> error + string option) \<Rightarrow> 'a dependency_scheme list \<Rightarrow>
   update_candidate list \<Rightarrow> update_candidate list"
where
  "check_loop getLatestVersion [] outdated = outdated"
| "check_loop getLatestVersion (dep # deps) outdated =
     check_loop getLatestVersion deps
       (case check_dep getLatestVersion dep of
          Inl e \<Rightarrow> outdated
        | Inr None \<Rightarrow> outdated
        | Inr (Some candidate) \<Rightarrow> outdated @ [candidate])"

definition check ::
  "'a dependency_scheme list \<Rightarrow> (string \<Rightarrow> error + string option) \<Rightarrow> update_candidate list"
where
  "check dependencies getLatestVersion = check_loop getLatestVersion dependencies []"

section \<open>src/index.js\<close>

text \<open>
  \<open>applyFixes\<close>: \<open>this.scanner\<close> is \<open>null\<close> until a project type is detected; otherwise
  its \<open>applyUpdates\<close> is called with the filtered list, unless that list is empty, in
  which case the function returns \<open>undefined\<close> without calling it.
\<close>

definition applyFixes ::
  "(update_candidate list \<Rightarrow> error + 'r) option \<Rightarrow> update_candidate list \<Rightarrow> error + 'r option"
where
  "applyFixes scanner_applyUpdates outdated =
     (case scanner_applyUpdates of
        None \<Rightarrow> Inl (Error ''Project type not detected. Run detectProjectType() first.'')
      | Some applyUpdates \<Rightarrow>
          (let safeUpdates = filter (\<lambda>pkg. safe pkg \<and> \<not> breaking pkg) outdated
           in if length safeUpdates = 0 then Inr None
              else (case applyUpdates safeUpdates of Inl e \<Rightarrow> Inl e | Inr r \<Rightarrow> Inr (Some r))))"

section \<open>Values read from JSON\<close>

text \<open>
  What \<open>JSON.parse\<close> returns. A missing member reads as \<open>undefined\<close>, written
  \<open>None\<close>. Numbers take no part in this program beyond their truthiness.
\<close>

datatype json =
  JNull | JBool bool | JNum int | JStr string | JArr "json list" | JObj "(string \<times> json) list"

definition js_truthy :: "json option \<Rightarrow> bool" where
  "js_truthy v =
     (case v of
        None \<Rightarrow> False
      | Some JNull \<Rightarrow> False
      | Some (JBool b) \<Rightarrow> b
      | Some (JNum n) \<Rightarrow> n \<noteq> 0
      | Some (JStr s) \<Rightarrow> s \<noteq> []
      | Some (JArr xs) \<Rightarrow> True
      | Some (JObj ms) \<Rightarrow> True)"

text \<open>
  \<open>v.key\<close> for the member names this program reads (\<open>vulnerabilities\<close>, \<open>via\<close>,
  \<open>title\<close>, \<open>url\<close>, \<open>severity\<close>, \<open>range\<close>, \<open>fixAvailable\<close>, \<open>advisory\<close>,
  \<open>cve\<close>, \<open>specs\<close>, \<open>fixed_in\<close>): none of them is a built-in member of objects,
  arrays, strings, numbers or booleans, so only an object's own member is found.
  Reading a member of \<open>null\<close> or \<open>undefined\<close> raises a TypeError.
\<close>

definition member :: "json \<Rightarrow> string \<Rightarrow> json option" where
  "member v key = (case v of JObj ms \<Rightarrow> map_of ms key | _ \<Rightarrow> None)"

definition get_member :: "json option \<Rightarrow> string \<Rightarrow> error + json option" where
  "get_member v key =
     (case v of
        None \<Rightarrow> Inl TypeError
      | Some JNull \<Rightarrow> Inl TypeError
      | Some w \<Rightarrow> Inr (member w key))"

function string_of_nat :: "nat \<Rightarrow> string" where
  "string_of_nat n =
     (if n < 10 then [''0123456789'' ! n]
      else string_of_nat (n div 10) @ [''0123456789'' ! (n mod 10)])"
  by pat_completeness auto
termination
  by (relation "measure id") auto

text \<open>\<open>Object.entries(v)\<close> of a truthy value: the members of an object, the indexed
  elements of an array, the indexed characters of a string, nothing for a number or a
  boolean.\<close>

definition object_entries :: "json \<Rightarrow> (string \<times> json) list" where
  "object_entries v =
     (case v of
        JObj ms \<Rightarrow> ms
      | JArr xs \<Rightarrow> zip (map string_of_nat [0 ..< length xs]) xs
      | JStr s \<Rightarrow> zip (map string_of_nat [0 ..< length s]) (map (\<lambda>c. JStr [c]) s)
      | _ \<Rightarrow> [])"

section \<open>src/scanners/npm.js\<close>

text \<open>
  Both scanner classes have the methods \<open>scan\<close>, \<open>applyUpdates\<close> and
  \<open>getVulnerabilities\<close>; the functions below carry the prefix \<open>npm_\<close> or \<open>python_\<close>.
  Reading and parsing the manifest file is outside these functions: they take what was
  read.
\<close>

text \<open>The options the scanners read: \<open>dev\<close>, \<open>production\<close> and \<open>ignore\<close>.\<close>

record options =
  opt_dev :: bool
  opt_production :: bool
  opt_ignore :: "string option"

text \<open>
  The parsed \<open>package.json\<close>: its two dependency sections, each absent or the entries
  in \<open>Object.entries\<close> order, and all its other members.
\<close>

record package_json =
  dependencies :: "(string \<times> string) list option"
  devDependencies :: "(string \<times> string) list option"
  other_members :: "(string \<times> json) list"

definition shouldIgnore :: "options \<Rightarrow> string \<Rightarrow> bool" where
  "shouldIgnore opts packageName =
     (case opt_ignore opts of
        None \<Rightarrow> False
      | Some ignore \<Rightarrow>
          if ignore = [] then False
          else packageName \<in> set (map trim (js_split '','' ignore)))"

text \<open>One \<open>for\<close> loop of \<open>scan\<close> over the entries of a section, pushing onto the array.
  \<open>getInstalledVersion\<close> reads \<open>node_modules\<close> and returns \<open>null\<close> on any failure.\<close>

fun scan_section ::
  "options \<Rightarrow> (string \<Rightarrow> string option) \<Rightarrow> dep_kind \<Rightarrow> (string \<times> string) list \<Rightarrow>
   dependency list \<Rightarrow> dependency list"
where
  "scan_section opts getInstalledVersion kind [] deps = deps"
| "scan_section opts getInstalledVersion kind ((name, version) # entries) deps =
     (if shouldIgnore opts name then scan_section opts getInstalledVersion kind entries deps
      else scan_section opts getInstalledVersion kind entries
             (deps @ [\<lparr>dep_name = name, dep_version = version,
                       dep_installed = getInstalledVersion name, dep_type = kind\<rparr>]))"

definition npm_scan ::
  "options \<Rightarrow> (string \<Rightarrow> string option) \<Rightarrow> package_json \<Rightarrow> dependency list"
where
  "npm_scan opts getInstalledVersion packageJson =
     (let deps0 = [];
          deps1 =
            (case dependencies packageJson of
               Some entries \<Rightarrow>
                 if \<not> opt_dev opts
                 then scan_section opts getInstalledVersion Production entries deps0
                 else deps0
             | None \<Rightarrow> deps0);
          deps2 =
            (case devDependencies packageJson of
               Some entries \<Rightarrow>
                 if \<not> opt_production opts
                 then scan_section opts getInstalledVersion Development entries deps1
                 else deps1
             | None \<Rightarrow> deps1)
      in deps2)"

definition getVersionPrefix :: "string \<Rightarrow> string" where
  "getVersionPrefix versionString =
     (if startsWith versionString ''^'' then ''^''
      else if startsWith versionString ''~'' then ''~''
      else if startsWith versionString ''>='' then ''>=''
      else if startsWith versionString ''>'' then ''>''
      else if startsWith versionString ''<='' then ''<=''
      else if startsWith versionString ''<'' then ''<''
      else [])"

text \<open>Assignment to an existing member of a section.\<close>

fun set_member :: "string \<Rightarrow> string \<Rightarrow> (string \<times> string) list \<Rightarrow> (string \<times> string) list" where
  "set_member key v [] = []"
| "set_member key v ((k, w) # ms) =
     (if k = key then (k, v) # set_member key v ms else (k, w) # set_member key v ms)"

text \<open>
  One turn of the loop of \<open>applyUpdates\<close>. \<open>target_section\<close> is
  \<open>packageJson[targetSection]\<close>, the section selected by \<open>update.type\<close>. The entry is
  read with \<open>packageJson[targetSection][update.name]\<close>: an empty constraint is falsy, and a name
  that is no own member but an inherited one of \<open>Object.prototype\<close> yields a function
  or object, on which \<open>startsWith\<close> is not a function (TypeError).
\<close>

definition target_section :: "dep_kind \<Rightarrow> package_json \<Rightarrow> (string \<times> string) list option" where
  "target_section kind packageJson =
     (if kind = Production then dependencies packageJson else devDependencies packageJson)"

definition npm_apply_update :: "package_json \<Rightarrow> update_candidate \<Rightarrow> error + package_json" where
  "npm_apply_update packageJson update =
     (case target_section (uc_type update) packageJson of
        None \<Rightarrow> Inr packageJson
      | Some entries \<Rightarrow>
          (case obj_get entries (uc_name update) of
             Own constraint \<Rightarrow>
               if constraint = [] then Inr packageJson
               else
                 (let versionPrefix = getVersionPrefix constraint;
                      entries' = set_member (uc_name update) (versionPrefix @ latest update) entries
                  in if uc_type update = Production
                     then Inr (packageJson\<lparr>dependencies := Some entries'\<rparr>)
                     else Inr (packageJson\<lparr>devDependencies := Some entries'\<rparr>))
           | Inherited k \<Rightarrow> Inl TypeError
           | Undefined \<Rightarrow> Inr packageJson))"

text \<open>
  \<open>applyUpdates\<close> on the parsed manifest: the object that is serialised and written, or
  the exception that leaves the file unwritten.
\<close>

fun npm_applyUpdates :: "update_candidate list \<Rightarrow> package_json \<Rightarrow> error + package_json" where
  "npm_applyUpdates [] packageJson = Inr packageJson"
| "npm_applyUpdates (update # updates) packageJson =
     (case npm_apply_update packageJson update of
        Inl e \<Rightarrow> Inl e
      | Inr packageJson' \<Rightarrow> npm_applyUpdates updates packageJson')"

record npm_finding =
  nf_package :: string
  nf_severity :: "json option"
  nf_title :: "json option"
  nf_url :: "json option"
  nf_range :: "json option"
  nf_fixAvailable :: "json option"

text \<open>\<open>typeof via === 'object'\<close>\<close>

definition typeof_object :: "json \<Rightarrow> bool" where
  "typeof_object v = (case v of JNull \<Rightarrow> True | JArr xs \<Rightarrow> True | JObj ms \<Rightarrow> True | _ \<Rightarrow> False)"

text \<open>The \<open>forEach\<close> over \<open>vulnInfo.via\<close>.\<close>

fun via_forEach :: "string \<Rightarrow> json \<Rightarrow> json list \<Rightarrow> npm_finding list \<Rightarrow> error + npm_finding list" where
  "via_forEach packageName vulnInfo [] vulnerabilities = Inr vulnerabilities"
| "via_forEach packageName vulnInfo (via # vias) vulnerabilities =
     (if typeof_object via then
        (case get_member (Some via) ''title'' of
           Inl e \<Rightarrow> Inl e
         | Inr title \<Rightarrow>
             if js_truthy title then
               via_forEach packageName vulnInfo vias
                 (vulnerabilities @
                  [\<lparr>nf_package = packageName, nf_severity = member vulnInfo ''severity'',
                    nf_title = title, nf_url = member via ''url'',
                    nf_range = member vulnInfo ''range'',
                    nf_fixAvailable = member vulnInfo ''fixAvailable''\<rparr>])
             else via_forEach packageName vulnInfo vias vulnerabilities)
      else via_forEach packageName vulnInfo vias vulnerabilities)"

text \<open>The \<open>for\<close> loop over \<open>Object.entries(auditData.vulnerabilities)\<close>.\<close>

fun audit_entries_loop :: "(string \<times> json) list \<Rightarrow> npm_finding list \<Rightarrow> error + npm_finding list" where
  "audit_entries_loop [] vulnerabilities = Inr vulnerabilities"
| "audit_entries_loop ((packageName, vulnInfo) # entries) vulnerabilities =
     (case get_member (Some vulnInfo) ''via'' of
        Inl e \<Rightarrow> Inl e
      | Inr via \<Rightarrow>
          (case via of
             Some (JArr vias) \<Rightarrow>
               (case via_forEach packageName vulnInfo vias vulnerabilities of
                  Inl e \<Rightarrow> Inl e
                | Inr vulnerabilities' \<Rightarrow> audit_entries_loop entries vulnerabilities')
           | _ \<Rightarrow> audit_entries_loop entries vulnerabilities))"

definition parseAuditResults :: "json \<Rightarrow> error + npm_finding list" where
  "parseAuditResults auditData =
     (case get_member (Some auditData) ''vulnerabilities'' of
        Inl e \<Rightarrow> Inl e
      | Inr None \<Rightarrow> Inr []
      | Inr (Some vs) \<Rightarrow>
          if js_truthy (Some vs) then audit_entries_loop (object_entries vs) [] else Inr [])"

text \<open>
  \<open>getVulnerabilities\<close>: \<open>execAsync\<close> resolves with the standard output or rejects with
  an error that may carry it; \<open>JSON.parse\<close> returns a value or throws a SyntaxError.
  The argument \<open>dependencies\<close> is not read.
\<close>

datatype exec_outcome = Resolved string | Rejected "string option"

definition error_stdout :: "error \<Rightarrow> string option" where
  "error_stdout e = (case e of ExecError out \<Rightarrow> out | _ \<Rightarrow> None)"

definition npm_getVulnerabilities ::
  "(string \<Rightarrow> error + json) \<Rightarrow> exec_outcome \<Rightarrow> 'a dependency_scheme list \<Rightarrow> error + npm_finding list"
where
  "npm_getVulnerabilities JSON_parse execAsync deps =
     (case (case execAsync of
              Rejected out \<Rightarrow> Inl (ExecError out)
            | Resolved stdout \<Rightarrow>
                (case JSON_parse stdout of
                   Inl e \<Rightarrow> Inl e
                 | Inr auditData \<Rightarrow> parseAuditResults auditData)) of
        Inr vulnerabilities \<Rightarrow> Inr vulnerabilities
      | Inl e \<Rightarrow>
          (case error_stdout e of
             None \<Rightarrow> Inr []
           | Some out \<Rightarrow>
               if out = [] then Inr []
               else
                 (case (case JSON_parse out of
                          Inl parseError \<Rightarrow> Inl parseError
                        | Inr auditData \<Rightarrow> parseAuditResults auditData) of
                    Inr vulnerabilities \<Rightarrow> Inr vulnerabilities
                  | Inl parseError \<Rightarrow> Inr [])))"

section \<open>src/scanners/python.js\<close>

definition operators :: "string list" where
  "operators = [''>='', ''<='', ''=='', ''!='', ''~='', ''>'', ''<'']"

record parsed_dependency =
  pd_name :: string
  pd_version :: string
  pd_specifiedVersion :: "string option"

text \<open>
  The loop of \<open>parseDependency\<close> over the operators. \<open>[name, version] = line.split(op)\<close>
  takes the first two pieces; were there fewer, \<open>version.trim()\<close> would raise a
  TypeError.
\<close>

fun parse_with :: "string list \<Rightarrow> string \<Rightarrow> error + parsed_dependency" where
  "parse_with [] line =
     Inr \<lparr>pd_name = trim line, pd_version = ''*'', pd_specifiedVersion = None\<rparr>"
| "parse_with (op # ops) line =
     (if js_includes line op then
        (case js_split op line of
           name # version # rest \<Rightarrow>
             Inr \<lparr>pd_name = trim name, pd_version = op @ trim version,
                  pd_specifiedVersion = Some (trim version)\<rparr>
         | _ \<Rightarrow> Inl TypeError)
      else parse_with ops line)"

definition parseDependency :: "string \<Rightarrow> error + parsed_dependency" where
  "parseDependency line = parse_with operators line"

text \<open>A dependency of the Python scanner also carries \<open>specifiedVersion\<close>; it has no
  \<open>installed\<close> member.\<close>

record py_dependency = dependency +
  specifiedVersion :: "string option"

text \<open>The loop of \<open>scan\<close> over the lines of \<open>requirements.txt\<close>.\<close>

fun python_scan_loop :: "options \<Rightarrow> string list \<Rightarrow> py_dependency list \<Rightarrow> error + py_dependency list" where
  "python_scan_loop opts [] deps = Inr deps"
| "python_scan_loop opts (line # lines) deps =
     (let trimmed = trim line in
      if trimmed = [] \<or> startsWith trimmed ''#'' then python_scan_loop opts lines deps
      else
        (case parseDependency trimmed of
           Inl e \<Rightarrow> Inl e
         | Inr d \<Rightarrow>
             if \<not> shouldIgnore opts (pd_name d)
             then python_scan_loop opts lines
                    (deps @ [\<lparr>dep_name = pd_name d, dep_version = pd_version d,
                              dep_installed = None, dep_type = Production,
                              specifiedVersion = pd_specifiedVersion d\<rparr>])
             else python_scan_loop opts lines deps))"

definition python_scan :: "options \<Rightarrow> string \<Rightarrow> error + py_dependency list" where
  "python_scan opts content = python_scan_loop opts (js_split [CHR 0x0A] content) []"

fun extract_with :: "string list \<Rightarrow> string \<Rightarrow> string option" where
  "extract_with [] versionString = None"
| "extract_with (op # ops) versionString =
     (if startsWith versionString op then Some op else extract_with ops versionString)"

definition extractOperator :: "string \<Rightarrow> string option" where
  "extractOperator versionString = extract_with operators versionString"

text \<open>The function mapped over the lines by \<open>applyUpdates\<close>.\<close>

definition update_line :: "update_candidate list \<Rightarrow> string \<Rightarrow> error + string" where
  "update_line updates line =
     (let trimmed = trim line in
      if trimmed = [] \<or> startsWith trimmed ''#'' then Inr line
      else
        (case parseDependency trimmed of
           Inl e \<Rightarrow> Inl e
         | Inr d \<Rightarrow>
             (case find (\<lambda>u. uc_name u = pd_name d) updates of
                None \<Rightarrow> Inr line
              | Some update \<Rightarrow>
                  (let operator =
                         (case extractOperator (pd_version d) of
                            Some (c # cs) \<Rightarrow> c # cs
                          | _ \<Rightarrow> ''=='')
                   in Inr (pd_name d @ operator @ latest update)))))"

fun map_lines :: "update_candidate list \<Rightarrow> string list \<Rightarrow> error + string list" where
  "map_lines updates [] = Inr []"
| "map_lines updates (line # lines) =
     (case update_line updates line of
        Inl e \<Rightarrow> Inl e
      | Inr line' \<Rightarrow>
          (case map_lines updates lines of
             Inl e \<Rightarrow> Inl e
           | Inr lines' \<Rightarrow> Inr (line' # lines')))"

text \<open>\<open>lines.join('\n')\<close>\<close>

fun js_join :: "string list \<Rightarrow> string" where
  "js_join [] = []"
| "js_join [l] = l"
| "js_join (l # m # ls) = l @ [CHR 0x0A] @ js_join (m # ls)"

text \<open>\<open>applyUpdates\<close> on the content read: the content written, or the exception.\<close>

definition python_applyUpdates :: "update_candidate list \<Rightarrow> string \<Rightarrow> error + string" where
  "python_applyUpdates updates content =
     (case map_lines updates (js_split [CHR 0x0A] content) of
        Inl e \<Rightarrow> Inl e
      | Inr updatedLines \<Rightarrow> Inr (js_join updatedLines))"

text \<open>
  \<open>mapSeverity\<close>: \<open>severity.toLowerCase()\<close> raises a TypeError unless \<open>severity\<close> is a
  string; \<open>severityMap[...]\<close> is a read on an object literal, so it also finds the
  members inherited from \<open>Object.prototype\<close>, which are truthy and are returned as
  they are.
\<close>

definition severityMap :: "(string \<times> string) list" where
  "severityMap =
     [(''critical'', ''critical''), (''high'', ''high''), (''medium'', ''moderate''),
      (''moderate'', ''moderate''), (''low'', ''low'')]"

datatype severity_value = Label string | InheritedMember string

definition mapSeverity :: "json option \<Rightarrow> error + severity_value" where
  "mapSeverity severity =
     (case severity of
        Some (JStr s) \<Rightarrow>
          (case obj_get severityMap (toLowerCase s) of
             Own v \<Rightarrow> if v = [] then Inr (Label ''moderate'') else Inr (Label v)
           | Inherited k \<Rightarrow> Inr (InheritedMember k)
           | Undefined \<Rightarrow> Inr (Label ''moderate''))
      | _ \<Rightarrow> Inl TypeError)"

record py_finding =
  pf_package :: string
  pf_severity :: severity_value
  pf_title :: "json option"
  pf_cve :: "json option"
  pf_affectedVersions :: "json option"
  pf_fixedIn :: "json option"

text \<open>
  The \<open>forEach\<close> over \<open>response.data.vulnerabilities\<close>. It pushes onto the array of the
  enclosing function, so what was pushed before an exception stays: the result is the
  array together with the exception, if one was raised.
\<close>

fun vulnerabilities_forEach ::
  "string \<Rightarrow> json list \<Rightarrow> py_finding list \<Rightarrow> py_finding list \<times> error option"
where
  "vulnerabilities_forEach depName [] vulnerabilities = (vulnerabilities, None)"
| "vulnerabilities_forEach depName (vuln # vulns) vulnerabilities =
     (case get_member (Some vuln) ''severity'' of
        Inl e \<Rightarrow> (vulnerabilities, Some e)
      | Inr severity \<Rightarrow>
          (case mapSeverity severity of
             Inl e \<Rightarrow> (vulnerabilities, Some e)
           | Inr mapped \<Rightarrow>
               vulnerabilities_forEach depName vulns
                 (vulnerabilities @
                  [\<lparr>pf_package = depName, pf_severity = mapped,
                    pf_title = member vuln ''advisory'', pf_cve = member vuln ''cve'',
                    pf_affectedVersions = member vuln ''specs'',
                    pf_fixedIn = member vuln ''fixed_in''\<rparr>])))"

text \<open>
  The body of the \<open>try\<close> for one dependency. \<open>http_get\<close> is the request for a package
  name: it throws or gives \<open>response.data\<close>. \<open>forEach\<close> is a function only on an array.
\<close>

definition vulnerabilities_of_dep ::
  "(string \<Rightarrow> error + json option) \<Rightarrow> 'a dependency_scheme \<Rightarrow> py_finding list \<Rightarrow>
   py_finding list \<times> error option"
where
  "vulnerabilities_of_dep http_get dep vulnerabilities =
     (case http_get (dep_name dep) of
        Inl e \<Rightarrow> (vulnerabilities, Some e)
      | Inr data \<Rightarrow>
          if js_truthy data then
            (case get_member data ''vulnerabilities'' of
               Inl e \<Rightarrow> (vulnerabilities, Some e)
             | Inr vs \<Rightarrow>
                 if js_truthy vs then
                   (case vs of
                      Some (JArr vulns) \<Rightarrow>
                        vulnerabilities_forEach (dep_name dep) vulns vulnerabilities
                    | _ \<Rightarrow> (vulnerabilities, Some TypeError))
                 else (vulnerabilities, None))
          else (vulnerabilities, None))"

text \<open>The loop of \<open>getVulnerabilities\<close>: the \<open>catch\<close> goes on to the next dependency.\<close>

fun python_vulnerabilities_loop ::
  "(string \<Rightarrow> error + json option) \<Rightarrow> 'a dependency_scheme list \<Rightarrow> py_finding list \<Rightarrow>
   py_finding list"
where
  "python_vulnerabilities_loop http_get [] vulnerabilities = vulnerabilities"
| "python_vulnerabilities_loop http_get (dep # deps) vulnerabilities =
     (case vulnerabilities_of_dep http_get dep vulnerabilities of
        (vulnerabilities', caught) \<Rightarrow> python_vulnerabilities_loop http_get deps vulnerabilities')"

definition python_getVulnerabilities ::
  "(string \<Rightarrow> error + json option) \<Rightarrow> 'a dependency_scheme list \<Rightarrow> error + py_finding list"
where
  "python_getVulnerabilities http_get deps = Inr (python_vulnerabilities_loop http_get deps [])"

section \<open>Notions used to state the properties\<close>

text \<open>The names of the updates of one kind.\<close>

definition names_of :: "dep_kind \<Rightarrow> update_candidate list \<Rightarrow> string set" where
  "names_of kind updates = uc_name ` {u \<in> set updates. uc_type u = kind}"

text \<open>
  Two states of a manifest section agree outside the names \<open>N\<close>: both absent, or the same
  keys in the same order, with the same value at every key that is not in \<open>N\<close>.
\<close>

definition unchanged_outside ::
  "string set \<Rightarrow> (string \<times> string) list option \<Rightarrow> (string \<times> string) list option \<Rightarrow> bool"
where
  "unchanged_outside N s s' =
     rel_option (list_all2 (\<lambda>a b. fst b = fst a \<and> (fst a \<in> N \<or> snd b = snd a))) s s'"





text \<open>Inputs for the examples.\<close>

definition express_update :: update_candidate where
  "express_update =
     \<lparr>uc_name = ''express'', current = ''4.17.1'', wanted = ''^4.17.1'', latest = ''4.18.2'',
      uc_type = Production, updateType = UMinor, safe = True, breaking = False\<rparr>"


definition example_manifest :: package_json where
  "example_manifest =
     \<lparr>dependencies = Some [(''express'', ''^4.17.1''), (''lodash'', ''~4.17.15'')],
      devDependencies = Some [(''jest'', ''^27.0.0'')],
      other_members = [(''name'', JStr ''test-project'')]\<rparr>"



definition example_registry :: "string \<Rightarrow> error + string option" where
  "example_registry name =
     (if name = ''invalid-package'' then Inl (Error ''Package not found'')
      else Inr (Some ''4.18.2''))"

section \<open>Lemmas about the string operations\<close>

lemma startsWith_Nil [simp]: "startsWith s []"
  by (simp add: startsWith_def)

lemma startsWith_Cons_Cons [simp]: "startsWith (c # s) (d # p) = (c = d \<and> startsWith s p)"
  by (auto simp: startsWith_def)

lemma startsWith_Nil_Cons [simp]: "\<not> startsWith [] (d # p)"
  by (simp add: startsWith_def)

lemma startsWith_append_self [simp]: "startsWith (p @ v) p"
  by (simp add: startsWith_def)












section \<open>Lemmas about the update analyzer\<close>

lemma check_loop_append:
  "check_loop g deps acc =
     acc @ concat (map (\<lambda>d. case check_dep g d of Inr (Some c) \<Rightarrow> [c] | _ \<Rightarrow> []) deps)"
  by (induction deps arbitrary: acc) (auto split: sum.splits option.splits)

lemma check_concat:
  "check deps g = concat (map (\<lambda>d. check [d] g) deps)"
proof -
  have "(\<lambda>d. check [d] g) = (\<lambda>d. case check_dep g d of Inr (Some c) \<Rightarrow> [c] | _ \<Rightarrow> [])"
    by (auto simp: check_def fun_eq_iff split: sum.splits option.splits)
  then show ?thesis
    by (simp add: check_def check_loop_append)
qed

lemma check_dep_safe:
  "check_dep g d = Inr (Some c) \<Longrightarrow> safe c = (updateType c \<noteq> UMajor) \<and> breaking c = (updateType c = UMajor)"
  by (auto simp: check_dep_def Let_def split: sum.splits option.splits if_splits)


lemma check_loop_all:
  fixes deps :: "'a dependency_scheme list"
  assumes step: "\<And>(d :: 'a dependency_scheme) c. check_dep g d = Inr (Some c) \<Longrightarrow> P c"
    and acc: "\<forall>c\<in>set acc. P c"
  shows "\<forall>c\<in>set (check_loop g deps acc). P c"
  using acc
proof (induction deps arbitrary: acc)
  case Nil
  then show ?case by simp
next
  case (Cons d ds)
  show ?case
  proof (cases "check_dep g d")
    case (Inl e)
    then show ?thesis using Cons.IH[OF Cons.prems] by simp
  next
    case (Inr r)
    show ?thesis
    proof (cases r)
      case None
      then show ?thesis using Inr Cons.IH[OF Cons.prems] by simp
    next
      case (Some c)
      have "\<forall>x\<in>set (acc @ [c]). P x"
        using Cons.prems step[of d c] Inr Some by simp
      from Cons.IH[OF this] show ?thesis using Inr Some by simp
    qed
  qed
qed

lemma check_safe:
  assumes "c \<in> set (check deps g)"
  shows "safe c = (updateType c \<noteq> UMajor) \<and> breaking c = (updateType c = UMajor)"
proof -
  have "\<forall>c\<in>set (check_loop g deps []).
          safe c = (updateType c \<noteq> UMajor) \<and> breaking c = (updateType c = UMajor)"
    by (rule check_loop_all[OF check_dep_safe]) simp_all
  then show ?thesis using assms by (simp add: check_def)
qed


section \<open>Lemmas about the npm scanner\<close>


lemma unchanged_outside_refl: "unchanged_outside N s s"
  by (simp add: unchanged_outside_def option.rel_refl list_all2_same)

lemma unchanged_outside_trans:
  "unchanged_outside N s t \<Longrightarrow> unchanged_outside M t r \<Longrightarrow> unchanged_outside (N \<union> M) s r"
  unfolding unchanged_outside_def
  by (cases s; cases t; cases r) (simp_all add: list_all2_conv_all_nth, metis)

lemma unchanged_outside_set_member:
  "unchanged_outside {key} (Some ms) (Some (set_member key v ms))"
  unfolding unchanged_outside_def
  by (induction ms) auto

lemma unchanged_outside_lookup:
  "unchanged_outside N (Some es) (Some es') \<Longrightarrow>
   map fst es' = map fst es \<and> (\<forall>k. k \<notin> N \<longrightarrow> map_of es' k = map_of es k)"
  unfolding unchanged_outside_def
  by (simp, induction es es' rule: list_all2_induct) auto

lemma names_of_single: "names_of k [u] = (if uc_type u = k then {uc_name u} else {})"
  by (auto simp: names_of_def)

lemma npm_apply_update_cases:
  assumes "npm_apply_update pj u = Inr pj'"
  shows "pj' = pj \<or>
    (\<exists>es v. uc_type u = Production \<and> dependencies pj = Some es \<and>
       pj' = pj\<lparr>dependencies := Some (set_member (uc_name u) v es)\<rparr>) \<or>
    (\<exists>es v. uc_type u = Development \<and> devDependencies pj = Some es \<and>
       pj' = pj\<lparr>devDependencies := Some (set_member (uc_name u) v es)\<rparr>)"
  using assms
  by (cases "uc_type u")
     (auto simp: npm_apply_update_def target_section_def Let_def
           split: option.splits js_lookup.splits if_splits)

lemma npm_apply_update_frame:
  assumes "npm_apply_update pj u = Inr pj'"
  shows "other_members pj' = other_members pj \<and>
    unchanged_outside (names_of Production [u]) (dependencies pj) (dependencies pj') \<and>
    unchanged_outside (names_of Development [u]) (devDependencies pj) (devDependencies pj')"
  using npm_apply_update_cases[OF assms]
  by (auto simp: names_of_single unchanged_outside_refl unchanged_outside_set_member)

lemma names_of_Cons: "names_of k (u # us) = names_of k [u] \<union> names_of k us"
  by (auto simp: names_of_def)

lemma npm_applyUpdates_unchanged:
  "npm_applyUpdates updates pj = Inr pj' \<Longrightarrow>
   other_members pj' = other_members pj \<and>
   unchanged_outside (names_of Production updates) (dependencies pj) (dependencies pj') \<and>
   unchanged_outside (names_of Development updates) (devDependencies pj) (devDependencies pj')"
proof (induction updates arbitrary: pj)
  case Nil
  then show ?case by (simp add: unchanged_outside_refl)
next
  case (Cons u us)
  from Cons.prems obtain pj1 where
    s1: "npm_apply_update pj u = Inr pj1" and s2: "npm_applyUpdates us pj1 = Inr pj'"
    by (auto split: sum.splits)
  note f1 = npm_apply_update_frame[OF s1]
  note f2 = Cons.IH[OF s2]
  show ?case
    using f1 f2 unchanged_outside_trans names_of_Cons[of _ u us] by metis
qed

lemma npm_apply_update_absent:
  "(target_section (uc_type u) pj = None \<longrightarrow> npm_apply_update pj u = Inr pj) \<and>
   (target_section (uc_type u) pj = Some es \<and> uc_name u \<notin> fst ` set es \<longrightarrow>
      npm_apply_update pj u =
        (if uc_name u \<in> set object_prototype_members then Inl TypeError else Inr pj))"
proof -
  have "uc_name u \<notin> fst ` set es \<Longrightarrow> map_of es (uc_name u) = None"
    by (simp add: map_of_eq_None_iff)
  then show ?thesis
    by (auto simp: npm_apply_update_def obj_get_def)
qed






section \<open>Lemmas about the Python scanner\<close>

lemma python_scan_loop_filters:
  "python_scan_loop (opts\<lparr>opt_dev := dv, opt_production := pr\<rparr>) lines deps =
   python_scan_loop opts lines deps"
  by (induction lines arbitrary: deps) (auto simp: shouldIgnore_def Let_def split: sum.splits)




























section \<open>The claims\<close>

text \<open>
  Claim C1: every emitted candidate is safe exactly when its distance is patch or minor.
  The analyzer computes \<open>safe\<close> as "the distance is not major" (lemma \<open>check_safe\<close>),
  so a candidate of distance unknown is emitted with \<open>safe = True\<close>: here the declared
  \<open>django==4.2.1\<close> against the registry's latest version \<open>5.0\<close>, which is no semantic
  version.
\<close>

theorem check_marks_unknown_distance_safe:
  "check [\<lparr>dep_name = ''django'', dep_version = ''==4.2.1'', dep_installed = None,
           dep_type = Production\<rparr>]
     (\<lambda>name. Inr (Some ''5.0'')) =
   [\<lparr>uc_name = ''django'', current = ''4.2.1'', wanted = ''==4.2.1'', latest = ''5.0'',
     uc_type = Production, updateType = UUnknown, safe = True, breaking = False\<rparr>]"
  by code_simp



text \<open>
  Claim C3: \<open>applyFixes\<close> hands the manifest rewrite exactly the candidates of distance
  patch or minor, and never one of distance unknown. The filter is
  \<open>safe \<and> \<not> breaking\<close>, and the analyzer marks a candidate of distance unknown safe, so
  it is handed over: the candidate for \<open>django==4.2.1\<close> with latest \<open>5.0\<close> has distance
  unknown, and the requirements file is rewritten to \<open>django==5.0\<close>.
\<close>

theorem applyFixes_rewrites_unknown_distance:
  "map updateType
     (check [\<lparr>dep_name = ''django'', dep_version = ''==4.2.1'', dep_installed = None,
              dep_type = Production\<rparr>] (\<lambda>name. Inr (Some ''5.0''))) = [UUnknown] \<and>
   applyFixes (Some (\<lambda>updates. python_applyUpdates updates ''django==4.2.1''))
     (check [\<lparr>dep_name = ''django'', dep_version = ''==4.2.1'', dep_installed = None,
              dep_type = Production\<rparr>] (\<lambda>name. Inr (Some ''5.0''))) =
   Inr (Some ''django==5.0'')"
  by code_simp




text \<open>
  Claim C5: no candidate of distance none is ever emitted. A candidate is emitted whenever
  the two version strings differ; when no component of the latest version is greater,
  its distance is none: here the installed \<open>2.1.0\<close> against the registry's latest
  \<open>1.0.0\<close>.
\<close>

theorem check_emits_distance_none:
  "check [\<lparr>dep_name = ''left-pad'', dep_version = ''^2.1.0'', dep_installed = Some ''2.1.0'',
           dep_type = Production\<rparr>]
     (\<lambda>name. Inr (Some ''1.0.0'')) =
   [\<lparr>uc_name = ''left-pad'', current = ''2.1.0'', wanted = ''^2.1.0'', latest = ''1.0.0'',
     uc_type = Production, updateType = UNone, safe = True, breaking = False\<rparr>]"
  by code_simp

text \<open>
  Claim C6: when the lookup of the latest version throws for one dependency, the analyzer
  returns what it returns for the list without that dependency, which is the candidates
  of the remaining dependencies, each classified as if checked alone.
\<close>

theorem check_skips_failed_lookup:
  assumes "getLatestVersion (dep_name dep) = Inl e"
  shows "check (before @ dep # after) getLatestVersion = check (before @ after) getLatestVersion \<and>
         check (before @ dep # after) getLatestVersion =
           concat (map (\<lambda>d. check [d] getLatestVersion) (before @ after))"
proof -
  have "check_dep getLatestVersion dep = Inl e" using assms by (simp add: check_dep_def)
  then have "check (before @ dep # after) getLatestVersion = check (before @ after) getLatestVersion"
    by (simp add: check_def check_loop_append)
  then show ?thesis using check_concat[of "before @ after" getLatestVersion] by simp
qed

theorem check_skips_failed_lookup_witness:
  "example_registry ''invalid-package'' = Inl (Error ''Package not found'') \<and>
   check ([\<lparr>dep_name = ''express'', dep_version = ''^4.17.1'', dep_installed = Some ''4.17.1'',
            dep_type = Production\<rparr>] @
          \<lparr>dep_name = ''invalid-package'', dep_version = ''1.0.0'', dep_installed = Some ''1.0.0'',
            dep_type = Production\<rparr> # []) example_registry =
   [\<lparr>uc_name = ''express'', current = ''4.17.1'', wanted = ''^4.17.1'', latest = ''4.18.2'',
     uc_type = Production, updateType = UMinor, safe = True, breaking = False\<rparr>]"
proof -
  let ?x = "\<lparr>dep_name = ''express'', dep_version = ''^4.17.1'', dep_installed = Some ''4.17.1'',
            dep_type = Production\<rparr>"
  let ?d = "\<lparr>dep_name = ''invalid-package'', dep_version = ''1.0.0'', dep_installed = Some ''1.0.0'',
            dep_type = Production\<rparr>"
  have h: "example_registry (dep_name ?d) = Inl (Error ''Package not found'')" by code_simp
  have r: "check ([?x] @ []) example_registry =
     [\<lparr>uc_name = ''express'', current = ''4.17.1'', wanted = ''^4.17.1'', latest = ''4.18.2'',
     uc_type = Production, updateType = UMinor, safe = True, breaking = False\<rparr>]" by code_simp
  from h check_skips_failed_lookup
    [of example_registry ?d "Error ''Package not found''" "[?x]" "[]"]
  have "check ([?x] @ ?d # []) example_registry = check ([?x] @ []) example_registry" by blast
  with r h show ?thesis by simp
qed




text \<open>
  Claim C8: with both filters set, each guards its own section and the listing is empty.
  The Python scanner reads neither filter: its listing of a one-line requirements file is
  not empty with both set.
\<close>

theorem python_scan_ignores_filters:
  "python_scan \<lparr>opt_dev = True, opt_production = True, opt_ignore = None\<rparr> ''requests==2.31.0'' =
   Inr [\<lparr>dep_name = ''requests'', dep_version = ''==2.31.0'', dep_installed = None,
         dep_type = Production, specifiedVersion = Some ''2.31.0''\<rparr>]"
  by code_simp

text \<open>
  Claim C8, amended: with both filters set the npm scanner's listing is empty for every
  manifest; the Python scanner's listing does not depend on the two filters.
\<close>

theorem both_filters_npm_empty:
  "(opt_dev opts \<and> opt_production opts \<longrightarrow>
      npm_scan opts getInstalledVersion packageJson = []) \<and>
   python_scan (opts\<lparr>opt_dev := dev, opt_production := production\<rparr>) content =
     python_scan opts content"
  by (auto simp: npm_scan_def python_scan_def python_scan_loop_filters split: option.splits)

theorem both_filters_npm_empty_witness:
  "opt_dev \<lparr>opt_dev = True, opt_production = True, opt_ignore = None\<rparr> \<and>
   opt_production \<lparr>opt_dev = True, opt_production = True, opt_ignore = None\<rparr> \<and>
   npm_scan \<lparr>opt_dev = True, opt_production = True, opt_ignore = None\<rparr> (\<lambda>name. None)
     example_manifest = []"
proof -
  let ?o = "\<lparr>opt_dev = True, opt_production = True, opt_ignore = None\<rparr>"
  have h: "opt_dev ?o \<and> opt_production ?o" by simp
  from h both_filters_npm_empty[of ?o "\<lambda>name. None" example_manifest True True "[]"]
  have "npm_scan ?o (\<lambda>name. None) example_manifest = []" by blast
  with h show ?thesis by blast
qed

text \<open>
  Claim C9: whatever the audit command, the parser or the vulnerability service do
  (reject, throw, or return malformed data), \<open>getVulnerabilities\<close> of either scanner
  returns a list and raises nothing.
\<close>

theorem getVulnerabilities_never_raises:
  "(\<exists>vulnerabilities.
      npm_getVulnerabilities JSON_parse execAsync deps = Inr vulnerabilities) \<and>
   (\<exists>vulnerabilities.
      python_getVulnerabilities http_get pydeps = Inr vulnerabilities)"
  by (simp add: npm_getVulnerabilities_def python_getVulnerabilities_def
           split: sum.splits option.splits exec_outcome.splits)

text \<open>
  Claim C10: in the manifest object that \<open>applyUpdates\<close> of the npm scanner writes, the
  members other than the two sections are unchanged, each section has its keys
  unchanged and its value unchanged at every key that no update of the section's kind
  names; and one update that names a package absent from its section leaves the object
  as it is, or raises before anything is written when the name is that of an inherited
  member.
\<close>

theorem npm_applyUpdates_frame:
  "(npm_applyUpdates updates packageJson = Inr written \<longrightarrow>
      other_members written = other_members packageJson \<and>
      unchanged_outside (names_of Production updates)
        (dependencies packageJson) (dependencies written) \<and>
      unchanged_outside (names_of Development updates)
        (devDependencies packageJson) (devDependencies written)) \<and>
   (target_section (uc_type update) packageJson = None \<longrightarrow>
      npm_apply_update packageJson update = Inr packageJson) \<and>
   (target_section (uc_type update) packageJson = Some entries \<and>
    uc_name update \<notin> fst ` set entries \<longrightarrow>
      npm_apply_update packageJson update =
        (if uc_name update \<in> set object_prototype_members then Inl TypeError
         else Inr packageJson))"
  using npm_applyUpdates_unchanged[of updates packageJson written]
    npm_apply_update_absent[of update packageJson entries]
  by blast

theorem npm_applyUpdates_frame_witness:
  "npm_applyUpdates [express_update] example_manifest =
     Inr (example_manifest
            \<lparr>dependencies := Some [(''express'', ''^4.18.2''), (''lodash'', ''~4.17.15'')]\<rparr>) \<and>
   unchanged_outside (names_of Production [express_update])
     (dependencies example_manifest)
     (Some [(''express'', ''^4.18.2''), (''lodash'', ''~4.17.15'')]) \<and>
   target_section (uc_type (express_update\<lparr>uc_name := ''chalk''\<rparr>)) example_manifest =
     Some [(''express'', ''^4.17.1''), (''lodash'', ''~4.17.15'')] \<and>
   npm_apply_update example_manifest (express_update\<lparr>uc_name := ''chalk''\<rparr>) = Inr example_manifest"
proof -
  let ?w = "example_manifest
            \<lparr>dependencies := Some [(''express'', ''^4.18.2''), (''lodash'', ''~4.17.15'')]\<rparr>"
  let ?u = "express_update\<lparr>uc_name := ''chalk''\<rparr>"
  let ?es = "[(''express'', ''^4.17.1''), (''lodash'', ''~4.17.15'')]"
  have h1: "npm_applyUpdates [express_update] example_manifest = Inr ?w" by code_simp
  have h2: "target_section (uc_type ?u) example_manifest = Some ?es" by code_simp
  have h3: "uc_name ?u \<notin> fst ` set ?es" by (simp add: express_update_def)
  have h4: "uc_name ?u \<notin> set object_prototype_members"
    by (simp add: express_update_def object_prototype_members_def)
  note t = npm_applyUpdates_frame[of "[express_update]" example_manifest ?w ?u ?es]
  from t h1 have "unchanged_outside (names_of Production [express_update])
     (dependencies example_manifest) (dependencies ?w)" by blast
  then have c1: "unchanged_outside (names_of Production [express_update])
     (dependencies example_manifest)
     (Some [(''express'', ''^4.18.2''), (''lodash'', ''~4.17.15'')])" by simp
  from t h2 h3 have "npm_apply_update example_manifest ?u =
        (if uc_name ?u \<in> set object_prototype_members then Inl TypeError
         else Inr example_manifest)" by blast
  with h4 have c2: "npm_apply_update example_manifest ?u = Inr example_manifest" by simp
  show ?thesis using h1 h2 c1 c2 by blast
qed

end
